theory Spec2Isabelle
  imports Complex_Main "HOL-Library.Sublist"
begin

section \<open>Exceptions and the log\<close>

text \<open>
  The exceptions the pipeline of \<^verbatim>\<open>etl_spotify.py\<close> can meet. \<open>BulkWriteError\<close> is
  not among them: the loader catches it where it is raised, so it is a value of
  \<open>insert_outcome\<close> below.
\<close>

datatype exn =
    ParserError
  | UnicodeDecodeError
  | FileNotFoundError
  | TypeError
  | ZeroDivisionError
  | ConnectionFailure
  | OperationFailure

text \<open>
  One entry of \<open>writeErrors\<close> in the details of a \<open>BulkWriteError\<close>: the index of the
  rejected document in the sub-batch and the server's error code (11000 is a duplicate key).
\<close>

record write_error =
  we_index :: nat
  we_code :: nat

text \<open>
  The messages the module-level \<open>logger\<close> receives from the loader and the orchestrator, in
  the order of the calls. Messages that only report sizes are left out.
\<close>

datatype log_entry =
    LoadStart string nat
  | WarnWriteErrors "write_error list"
  | LoadOk string
  | LoadError exn
  | ChunkStart nat
  | ChunkDone nat
  | FileDone
  | ProcessError exn
  | FallbackAttempt
  | FallbackDone
  | BothFailed exn

section \<open>The document store\<close>

text \<open>
  The store is an external collaborator (pymongo). Its behaviour is a parameter of the
  model: a record of the two calls the loader makes, over a store state \<open>'db\<close> and a
  document type \<open>'doc\<close>. \<open>insert_many\<close> is always called with \<open>ordered=False\<close>; it returns
  the store's new state and one of three outcomes.
\<close>

datatype insert_outcome =
    Inserted
  | BulkWriteError nat "write_error list"
  | Raised exn

record ('db, 'doc) store_ops =
  insert_many :: "'db \<Rightarrow> string \<Rightarrow> 'doc list \<Rightarrow> 'db \<times> insert_outcome"
  create_index :: "'db \<Rightarrow> string \<Rightarrow> string \<Rightarrow> bool \<Rightarrow> 'db \<times> exn option"

record 'db world =
  db :: 'db
  logged :: "log_entry list"

definition log_msg :: "log_entry \<Rightarrow> 'db world \<Rightarrow> 'db world" where
  "log_msg e w = w\<lparr>logged := logged w @ [e]\<rparr>"

section \<open>The loader: \<open>cargar_en_mongodb\<close>\<close>

text \<open>Python's \<open>xs[a:b]\<close> for \<open>0 \<le> a\<close> and \<open>0 \<le> b\<close>.\<close>

definition slice :: "nat \<Rightarrow> nat \<Rightarrow> 'a list \<Rightarrow> 'a list" where
  "slice a b xs = take (b - a) (drop a xs)"

text \<open>
  The sub-batches the loop of lines 207 to 214 hands to \<open>insert_many\<close>, in the order of the
  loop: \<open>num_batches\<close> rounds up, each slice ends at \<open>min((i + 1) * batch_size, total)\<close>, and
  an empty slice is skipped by \<open>if batch:\<close>. \<open>batch_size\<close> is a natural number here; every
  call in the repository passes 1000. With \<open>batch_size = 0\<close> line 207 divides by zero, which
  \<open>cargar_en_mongodb\<close> below raises before it reaches this function.
\<close>

definition sub_batches :: "nat \<Rightarrow> 'a list \<Rightarrow> 'a list list" where
  "sub_batches batch_size records =
     (let total_records = length records;
          num_batches = (total_records + batch_size - 1) div batch_size
      in filter (\<lambda>batch. batch \<noteq> [])
           (map (\<lambda>i. slice (i * batch_size) (min ((i + 1) * batch_size) total_records) records)
                [0..<num_batches]))"

text \<open>
  The loop body for one sub-batch, and the loop. A \<open>BulkWriteError\<close> is caught and logged
  as a warning with its \<open>writeErrors\<close>; any other exception leaves the loop.
\<close>

fun insert_loop ::
  "('db, 'doc) store_ops \<Rightarrow> string \<Rightarrow> 'doc list list \<Rightarrow> 'db world \<Rightarrow> 'db world \<times> exn option"
where
  "insert_loop ops cn [] w = (w, None)"
| "insert_loop ops cn (batch # rest) w =
     (case insert_many ops (db w) cn batch of
        (d, Inserted) \<Rightarrow> insert_loop ops cn rest (w\<lparr>db := d\<rparr>)
      | (d, BulkWriteError n errs) \<Rightarrow>
          insert_loop ops cn rest (log_msg (WarnWriteErrors errs) (w\<lparr>db := d\<rparr>))
      | (d, Raised e) \<Rightarrow> (w\<lparr>db := d\<rparr>, Some e))"

text \<open>
  Lines 222 to 228: the indexes of the two known collections, created in this order; the
  first call that raises ends the sequence.
\<close>

definition index_specs :: "string \<Rightarrow> (string \<times> bool) list" where
  "index_specs cn =
     (if cn = ''playlists'' then [(''id'', True), (''name'', False)]
      else if cn = ''tracks'' then [(''id'', True), (''artist_name'', False), (''track_name'', False)]
      else [])"

fun create_indexes ::
  "('db, 'doc) store_ops \<Rightarrow> string \<Rightarrow> (string \<times> bool) list \<Rightarrow> 'db \<Rightarrow> 'db \<times> exn option"
where
  "create_indexes ops cn [] d = (d, None)"
| "create_indexes ops cn ((field, uniq) # rest) d =
     (case create_index ops d cn field uniq of
        (d', None) \<Rightarrow> create_indexes ops cn rest d'
      | (d', Some e) \<Rightarrow> (d', Some e))"

text \<open>
  \<open>cargar_en_mongodb\<close>, from line 203 on: \<open>records\<close> is the list that line 201 builds from
  the dataframe. The result is \<open>Inr True\<close> for \<open>return True\<close> and \<open>Inl e\<close> when the outer
  handler logs \<open>e\<close> and raises it again.
\<close>

definition cargar_en_mongodb ::
  "('db, 'doc) store_ops \<Rightarrow> 'db world \<Rightarrow> 'doc list \<Rightarrow> string \<Rightarrow> nat \<Rightarrow> 'db world \<times> (exn + bool)"
where
  "cargar_en_mongodb ops w records collection_name batch_size =
     (let w1 = log_msg (LoadStart collection_name (length records)) w in
      if batch_size = 0 then (log_msg (LoadError ZeroDivisionError) w1, Inl ZeroDivisionError)
      else
        (case insert_loop ops collection_name (sub_batches batch_size records) w1 of
           (w2, Some e) \<Rightarrow> (log_msg (LoadError e) w2, Inl e)
         | (w2, None) \<Rightarrow>
             (case create_indexes ops collection_name (index_specs collection_name) (db w2) of
                (d, Some e) \<Rightarrow> (log_msg (LoadError e) (w2\<lparr>db := d\<rparr>), Inl e)
              | (d, None) \<Rightarrow> (log_msg (LoadOk collection_name) (w2\<lparr>db := d\<rparr>), Inr True))))"

section \<open>Stores used as concrete inputs\<close>

text \<open>
  A store that keeps every sub-batch it receives, in the order of the calls, and never
  fails: its state is the history of \<open>insert_many\<close>.
\<close>

definition recording_ops :: "('doc list list, 'doc) store_ops" where
  "recording_ops =
     \<lparr>insert_many = (\<lambda>d cn batch. (d @ [batch], Inserted)),
      create_index = (\<lambda>d cn field uniq. (d, None))\<rparr>"



text \<open>
  A store that is unreachable at the first call of \<open>insert_many\<close> and works from then on.
  Its state is the number of calls so far and the documents it holds.
\<close>

definition flaky_ops :: "(nat \<times> 'doc list, 'doc) store_ops" where
  "flaky_ops =
     \<lparr>insert_many = (\<lambda>d cn batch.
        if fst d = 0 then ((1, snd d), Raised ConnectionFailure)
        else ((fst d + 1, snd d @ batch), Inserted)),
      create_index = (\<lambda>d cn field uniq. (d, None))\<rparr>"

section \<open>What the store answers when it is handed every sub-batch\<close>

text \<open>
  \<open>feed\<close> is not a function of the source: it hands a list of sub-batches to the store one
  after the other, whatever the store answers, and collects the answers. The loader is
  compared with it below.
\<close>

fun feed ::
  "('db, 'doc) store_ops \<Rightarrow> string \<Rightarrow> 'doc list list \<Rightarrow> 'db \<Rightarrow> 'db \<times> insert_outcome list"
where
  "feed ops cn [] d = (d, [])"
| "feed ops cn (batch # rest) d =
     (case insert_many ops d cn batch of
        (d1, out) \<Rightarrow> (case feed ops cn rest d1 of (d2, outs) \<Rightarrow> (d2, out # outs)))"

fun is_raised :: "insert_outcome \<Rightarrow> bool" where
  "is_raised (Raised e) = True"
| "is_raised _ = False"

fun warnings_of :: "insert_outcome list \<Rightarrow> log_entry list" where
  "warnings_of [] = []"
| "warnings_of (BulkWriteError n errs # outs) = WarnWriteErrors errs # warnings_of outs"
| "warnings_of (out # outs) = warnings_of outs"

section \<open>Dataframes\<close>

text \<open>
  A pandas \<open>DataFrame\<close> is a list of named, typed columns of equal length. The dtypes are
  those \<open>read_csv\<close> infers (\<open>int64\<close>, \<open>float64\<close>, \<open>bool\<close>, \<open>object\<close>) and the two the
  transforms introduce (\<open>datetime64\<close>, \<open>category\<close>). A cell is a missing value (\<open>NaN\<close>,
  also standing for \<open>NaT\<close>), a number, a string, a boolean or a timestamp. Numbers are
  rationals: the arithmetic of the transforms is exact here, where pandas rounds to
  binary64. A character stands for one code point below 256.

  The model follows pandas 1.3 to 2.x, the versions the source is written for: a
  \<open>fillna(..., inplace=True)\<close> on \<open>df[col]\<close> changes \<open>df\<close>, and \<open>astype(str)\<close> turns a missing
  value of an \<open>object\<close> column into the string \<open>nan\<close>.
\<close>

datatype dtype = Int64 | Float64 | Boolean | Object | Datetime64 | Category

datatype cell = NaN | Num rat | Str string | Bool bool | Stamp int

record column =
  cname :: string
  dtype :: dtype
  cells :: "cell list"

type_synonym dataframe = "column list"

definition nrows :: "dataframe \<Rightarrow> nat" where
  "nrows df = (case df of [] \<Rightarrow> 0 | c # _ \<Rightarrow> length (cells c))"


definition row_at :: "dataframe \<Rightarrow> nat \<Rightarrow> cell list" where
  "row_at df i = map (\<lambda>c. cells c ! i) df"

definition rows_of :: "dataframe \<Rightarrow> cell list list" where
  "rows_of df = map (row_at df) [0..<nrows df]"

text \<open>
  Objects live in a heap: the transforms receive a reference to the caller's dataframe.
  \<open>df_copy\<close> is \<open>df.copy()\<close>, a deep copy at a fresh address; \<open>inplace\<close> is a statement that
  changes the dataframe at an address where it is.
\<close>

record heap =
  objs :: "nat \<Rightarrow> dataframe"
  nxt :: nat

definition df_copy :: "heap \<Rightarrow> nat \<Rightarrow> heap \<times> nat" where
  "df_copy h a = (h\<lparr>objs := (objs h)(nxt h := objs h a), nxt := Suc (nxt h)\<rparr>, nxt h)"

definition inplace :: "nat \<Rightarrow> (dataframe \<Rightarrow> dataframe) \<Rightarrow> heap \<Rightarrow> heap" where
  "inplace a f h = h\<lparr>objs := (objs h)(a := f (objs h a))\<rparr>"

subsection \<open>\<open>duplicated\<close> and \<open>drop_duplicates\<close>\<close>

text \<open>
  \<open>DataFrame.duplicated()\<close> with the default \<open>keep='first'\<close> walks the rows in order with a
  table of the rows seen so far, and marks a row that is already in the table. Two missing
  values are equal there. \<open>drop_duplicates\<close> keeps the rows that are not marked, in every
  column.
\<close>

fun duplicated_from :: "'a list \<Rightarrow> 'a list \<Rightarrow> bool list" where
  "duplicated_from seen [] = []"
| "duplicated_from seen (r # rs) =
     (r \<in> set seen) # duplicated_from (if r \<in> set seen then seen else r # seen) rs"

definition duplicated :: "dataframe \<Rightarrow> bool list" where
  "duplicated df = duplicated_from [] (rows_of df)"

fun mask_select :: "bool list \<Rightarrow> 'a list \<Rightarrow> 'a list" where
  "mask_select (b # bs) (x # xs) = (if b then x # mask_select bs xs else mask_select bs xs)"
| "mask_select _ _ = []"

definition drop_duplicates :: "dataframe \<Rightarrow> dataframe" where
  "drop_duplicates df =
     (let keep = map Not (duplicated df)
      in map (\<lambda>c. c\<lparr>cells := mask_select keep (cells c)\<rparr>) df)"


subsection \<open>Pieces of pandas and Python the transforms call\<close>

text \<open>
  Two library functions are parameters of the model. \<open>to_datetime\<close> is
  \<open>pd.to_datetime(series, errors='coerce')\<close>: it returns the dtype and the values of the
  converted series, or \<open>None\<close> when it raises. \<open>str_value\<close> is Python's \<open>str\<close> on a number or
  a timestamp.
\<close>

record pylib =
  to_datetime :: "column \<Rightarrow> (dtype \<times> cell list) option"
  str_value :: "cell \<Rightarrow> string"

definition py_str :: "pylib \<Rightarrow> cell \<Rightarrow> string" where
  "py_str L v =
     (case v of
        NaN \<Rightarrow> ''nan''
      | Str s \<Rightarrow> s
      | Bool b \<Rightarrow> (if b then ''True'' else ''False'')
      | _ \<Rightarrow> str_value L v)"

text \<open>\<open>str.lower\<close> on the letters A to Z; no other code point below 256 lowers to an ASCII letter.\<close>

definition lower_char :: "char \<Rightarrow> char" where
  "lower_char c =
     (let n = of_char c :: nat in if 65 \<le> n \<and> n \<le> 90 then char_of (n + 32) else c)"

definition py_lower :: "string \<Rightarrow> string" where
  "py_lower s = map lower_char s"

text \<open>Python's \<open>p in s\<close> on strings.\<close>

fun contains :: "string \<Rightarrow> string \<Rightarrow> bool" where
  "contains p [] = (p = [])"
| "contains p (x # xs) = (prefix p (x # xs) \<or> contains p xs)"

definition is_date_column :: "string \<Rightarrow> bool" where
  "is_date_column col = (contains ''date'' (py_lower col) \<or> contains ''time'' (py_lower col))"

text \<open>
  The classes \<open>\w\<close> and \<open>\s\<close> of \<open>re\<close> on a \<open>str\<close> pattern, for code points below 256: a word
  character is alphanumeric or the underscore.
\<close>

definition is_word_char :: "char \<Rightarrow> bool" where
  "is_word_char c =
     (let n = of_char c :: nat in
        (48 \<le> n \<and> n \<le> 57) \<or> (65 \<le> n \<and> n \<le> 90) \<or> n = 95 \<or> (97 \<le> n \<and> n \<le> 122)
        \<or> n = 170 \<or> n = 178 \<or> n = 179 \<or> n = 181 \<or> n = 185 \<or> n = 186
        \<or> (188 \<le> n \<and> n \<le> 190) \<or> (192 \<le> n \<and> n \<le> 214) \<or> (216 \<le> n \<and> n \<le> 246)
        \<or> 248 \<le> n)"

definition is_space_char :: "char \<Rightarrow> bool" where
  "is_space_char c =
     (let n = of_char c :: nat in
        (9 \<le> n \<and> n \<le> 13) \<or> (28 \<le> n \<and> n \<le> 32) \<or> n = 133 \<or> n = 160)"

text \<open>\<open>re.sub(r'[^\w\s]', '', s)\<close>, which \<open>Series.str.replace(..., regex=True)\<close> applies to a value.\<close>

definition strip_special :: "string \<Rightarrow> string" where
  "strip_special s = filter (\<lambda>c. is_word_char c \<or> is_space_char c) s"

text \<open>
  \<open>Series.fillna(text, inplace=True)\<close>: every missing value becomes the text. A column
  without a missing value is left as it is; a column that receives the text holds Python
  objects afterwards.
\<close>

definition fillna_text :: "string \<Rightarrow> column \<Rightarrow> column" where
  "fillna_text s c =
     (if NaN \<in> set (cells c)
      then c\<lparr>dtype := Object, cells := map (\<lambda>v. if v = NaN then Str s else v) (cells c)\<rparr>
      else c)"

definition fillna_column :: "string \<Rightarrow> string \<Rightarrow> dataframe \<Rightarrow> dataframe" where
  "fillna_column col s df = map (\<lambda>c. if cname c = col then fillna_text s c else c) df"

section \<open>The playlist transform\<close>

text \<open>Lines 134 to 139: a conversion that raises leaves the column as it is.\<close>

definition convert_date :: "pylib \<Rightarrow> column \<Rightarrow> column" where
  "convert_date L c =
     (if is_date_column (cname c)
      then (case to_datetime L c of
              None \<Rightarrow> c
            | Some (t, vs) \<Rightarrow> c\<lparr>dtype := t, cells := vs\<rparr>)
      else c)"

text \<open>Lines 142 to 144, on the columns that \<open>select_dtypes(include=['object'])\<close> returns.\<close>

definition clean_text :: "pylib \<Rightarrow> column \<Rightarrow> column" where
  "clean_text L c =
     (if dtype c = Object
      then c\<lparr>cells := map (\<lambda>v. Str (strip_special (py_str L v))) (cells c)\<rparr>
      else c)"

definition limpiar_y_transformar_playlists :: "pylib \<Rightarrow> heap \<Rightarrow> nat \<Rightarrow> heap \<times> nat" where
  "limpiar_y_transformar_playlists L h df_playlists =
     (let (h1, df) = df_copy h df_playlists;
          h2 = inplace df drop_duplicates h1;
          h3 = inplace df (fillna_column ''name'' ''Unknown Playlist'') h2;
          h4 = inplace df (map (convert_date L)) h3;
          h5 = inplace df (map (clean_text L)) h4
      in (h5, df))"

text \<open>
  Not a function of the source: the copy as line 142 finds it, that is after lines 122 to
  139, as a function of the caller's dataframe.
\<close>

definition before_clean_text :: "pylib \<Rightarrow> dataframe \<Rightarrow> dataframe" where
  "before_clean_text L df =
     map (convert_date L) (fillna_column ''name'' ''Unknown Playlist'' (drop_duplicates df))"

section \<open>The track transform\<close>

text \<open>
  \<open>Series.quantile(q)\<close> and \<open>Series.median()\<close> skip missing values and return \<open>NaN\<close>, here
  \<open>None\<close>, when nothing is left. The quantile interpolates linearly between the two order
  statistics around position \<open>q * (n - 1)\<close>.
\<close>

definition numeric_values :: "cell list \<Rightarrow> rat list" where
  "numeric_values vs = concat (map (\<lambda>v. case v of Num x \<Rightarrow> [x] | _ \<Rightarrow> []) vs)"

definition quantile :: "rat \<Rightarrow> cell list \<Rightarrow> rat option" where
  "quantile q vs =
     (let s = sort (numeric_values vs); n = length s in
      if n = 0 then None
      else
        (let pos = q * of_nat (n - 1);
             lo = nat \<lfloor>pos\<rfloor>;
             hi = min (lo + 1) (n - 1);
             frac = pos - of_int \<lfloor>pos\<rfloor>
         in Some (s ! lo + (s ! hi - s ! lo) * frac)))"

definition median :: "cell list \<Rightarrow> rat option" where
  "median vs =
     (let s = sort (numeric_values vs); n = length s in
      if n = 0 then None
      else if odd n then Some (s ! (n div 2))
      else Some ((s ! (n div 2 - 1) + s ! (n div 2)) / 2))"

definition is_numeric :: "dtype \<Rightarrow> bool" where
  "is_numeric t = (t = Int64 \<or> t = Float64)"

text \<open>
  Lines 172 to 179. A comparison with \<open>NaN\<close> is false, so nothing is marked when the
  quantiles are \<open>NaN\<close>, and a missing value is never marked. Writing \<open>np.nan\<close> into an
  integer column makes it a float column.
\<close>

definition is_outlier :: "rat \<Rightarrow> rat \<Rightarrow> cell \<Rightarrow> bool" where
  "is_outlier lower_bound upper_bound v =
     (case v of Num x \<Rightarrow> x < lower_bound \<or> x > upper_bound | _ \<Rightarrow> False)"

definition mark_outliers :: "column \<Rightarrow> column" where
  "mark_outliers c =
     (case (quantile (5 / 100) (cells c), quantile (95 / 100) (cells c)) of
        (Some q1, Some q3) \<Rightarrow>
          (let iqr = q3 - q1;
               lower_bound = q1 - (3 / 2) * iqr;
               upper_bound = q3 + (3 / 2) * iqr
           in if list_ex (is_outlier lower_bound upper_bound) (cells c)
              then c\<lparr>dtype := Float64,
                     cells := map (\<lambda>v. if is_outlier lower_bound upper_bound v then NaN else v)
                                (cells c)\<rparr>
              else c)
      | _ \<Rightarrow> c)"

text \<open>Line 182: with a \<open>NaN\<close> median, \<open>fillna\<close> changes nothing.\<close>

definition fillna_median :: "column \<Rightarrow> column" where
  "fillna_median c =
     (case median (cells c) of
        None \<Rightarrow> c
      | Some m \<Rightarrow> c\<lparr>cells := map (\<lambda>v. if v = NaN then Num m else v) (cells c)\<rparr>)"

text \<open>The body of the loop of line 170, on the columns that are numeric at line 169.\<close>

definition normalize_column :: "column \<Rightarrow> column" where
  "normalize_column c = (if is_numeric (dtype c) then fillna_median (mark_outliers c) else c)"

text \<open>
  \<open>pd.cut(x, bins, labels)\<close> with its defaults \<open>right=True\<close> and \<open>include_lowest=False\<close>: the
  intervals are open on the left and closed on the right, and a value in none of them, or a
  missing value, has the missing category. A boolean counts as 0 or 1; a string or a
  timestamp cannot be compared with the edges.
\<close>

fun cut_bins :: "rat list \<Rightarrow> string list \<Rightarrow> rat \<Rightarrow> cell" where
  "cut_bins (a # b # bins) (l # labels) x =
     (if a < x \<and> x \<le> b then Str l else cut_bins (b # bins) labels x)"
| "cut_bins _ _ x = NaN"

definition cut_value :: "rat list \<Rightarrow> string list \<Rightarrow> cell \<Rightarrow> exn + cell" where
  "cut_value bins labels v =
     (case v of
        NaN \<Rightarrow> Inr NaN
      | Num x \<Rightarrow> Inr (cut_bins bins labels x)
      | Bool b \<Rightarrow> Inr (cut_bins bins labels (if b then 1 else 0))
      | _ \<Rightarrow> Inl TypeError)"

fun pd_cut :: "rat list \<Rightarrow> string list \<Rightarrow> cell list \<Rightarrow> exn + cell list" where
  "pd_cut bins labels [] = Inr []"
| "pd_cut bins labels (v # vs) =
     (case cut_value bins labels v of
        Inl e \<Rightarrow> Inl e
      | Inr c \<Rightarrow> (case pd_cut bins labels vs of Inl e \<Rightarrow> Inl e | Inr cs \<Rightarrow> Inr (c # cs)))"

text \<open>\<open>df[col] = values\<close>: an existing column is replaced where it stands, a new one is appended.\<close>

definition set_column :: "string \<Rightarrow> dtype \<Rightarrow> cell list \<Rightarrow> dataframe \<Rightarrow> dataframe" where
  "set_column col t vs df =
     (if list_ex (\<lambda>c. cname c = col) df
      then map (\<lambda>c. if cname c = col then c\<lparr>dtype := t, cells := vs\<rparr> else c) df
      else df @ [\<lparr>cname = col, dtype = t, cells = vs\<rparr>])"

definition limpiar_y_transformar_tracks :: "heap \<Rightarrow> nat \<Rightarrow> heap \<times> (exn + nat)" where
  "limpiar_y_transformar_tracks h df_tracks =
     (let (h1, df) = df_copy h df_tracks;
          h2 = inplace df drop_duplicates h1;
          h3 = inplace df (fillna_column ''track_name'' ''Unknown Track'') h2;
          h4 = inplace df (fillna_column ''artist_name'' ''Unknown Artist'') h3;
          h5 = inplace df (map normalize_column) h4
      in case find (\<lambda>c. cname c = ''popularity'') (objs h5 df) of
           None \<Rightarrow> (h5, Inr df)
         | Some p \<Rightarrow>
             (case pd_cut [0, 20, 40, 60, 80, 100]
                     [''Very Low'', ''Low'', ''Medium'', ''High'', ''Very High''] (cells p) of
                Inl e \<Rightarrow> (h5, Inl e)
              | Inr categories \<Rightarrow>
                  (inplace df (set_column ''popularity_category'' Category categories) h5,
                   Inr df)))"

section \<open>The orchestrator: \<open>procesar_archivo_csv\<close>\<close>

text \<open>
  What \<open>read_csv\<close> does with the file is a parameter of the model, one field for each of
  the four calls: the sample of five rows (only whether it raises matters), the chunk
  iterator with \<open>on_bad_lines='skip'\<close>, the chunk iterator with the older
  \<open>error_bad_lines=False\<close>, and the whole-file read with the Python engine. A chunk
  iterator is the list of its pulls: each yields a chunk or raises, and a pull that raises
  ends the iteration.
\<close>

record csv_file =
  sample :: "exn option"
  chunks :: "exn + (exn + dataframe) list"
  chunks_old_api :: "exn + (exn + dataframe) list"
  whole_file :: "exn + dataframe"

text \<open>
  The loop of lines 266 to 282. \<open>funcion_transformacion\<close> is the transform the caller
  passes, seen as a function from the chunk to the cleaned chunk or to the exception it
  raises; \<open>to_records\<close> is line 201 of the loader, the conversion of a dataframe to the list
  of documents. The result carries the exception that left the loop, if any.
\<close>

fun process_chunks ::
  "('db, 'doc) store_ops \<Rightarrow> (dataframe \<Rightarrow> exn + dataframe) \<Rightarrow> (dataframe \<Rightarrow> 'doc list) \<Rightarrow>
   string \<Rightarrow> nat \<Rightarrow> (exn + dataframe) list \<Rightarrow> 'db world \<Rightarrow> 'db world \<times> exn option"
where
  "process_chunks ops funcion_transformacion to_records cn i [] w = (w, None)"
| "process_chunks ops funcion_transformacion to_records cn i (Inl e # rest) w = (w, Some e)"
| "process_chunks ops funcion_transformacion to_records cn i (Inr chunk # rest) w =
     (let w1 = log_msg (ChunkStart (i + 1)) w in
      case funcion_transformacion chunk of
        Inl e \<Rightarrow> (w1, Some e)
      | Inr chunk_transformado \<Rightarrow>
          (case cargar_en_mongodb ops w1 (to_records chunk_transformado) cn 1000 of
             (w2, Inl e) \<Rightarrow> (w2, Some e)
           | (w2, Inr ok) \<Rightarrow>
               process_chunks ops funcion_transformacion to_records cn (i + 1) rest
                 (log_msg (ChunkDone (i + 1)) w2)))"

text \<open>
  The \<open>try\<close> block of lines 243 to 285, up to the end of the loop: the sample, the choice
  of the \<open>read_csv\<close> keyword on \<open>TypeError\<close>, and the loop.
\<close>

definition chunked_path ::
  "('db, 'doc) store_ops \<Rightarrow> (dataframe \<Rightarrow> exn + dataframe) \<Rightarrow> (dataframe \<Rightarrow> 'doc list) \<Rightarrow>
   string \<Rightarrow> csv_file \<Rightarrow> 'db world \<Rightarrow> 'db world \<times> exn option"
where
  "chunked_path ops funcion_transformacion to_records cn f w =
     (case sample f of
        Some e \<Rightarrow> (w, Some e)
      | None \<Rightarrow>
          (case (case chunks f of Inl TypeError \<Rightarrow> chunks_old_api f | r \<Rightarrow> r) of
             Inl e \<Rightarrow> (w, Some e)
           | Inr pulls \<Rightarrow> process_chunks ops funcion_transformacion to_records cn 0 pulls w))"

text \<open>The \<open>try\<close> block of lines 291 to 306, inside the handler.\<close>

definition whole_file_path ::
  "('db, 'doc) store_ops \<Rightarrow> (dataframe \<Rightarrow> exn + dataframe) \<Rightarrow> (dataframe \<Rightarrow> 'doc list) \<Rightarrow>
   string \<Rightarrow> csv_file \<Rightarrow> 'db world \<Rightarrow> 'db world \<times> (exn + bool)"
where
  "whole_file_path ops funcion_transformacion to_records cn f w =
     (case whole_file f of
        Inl e2 \<Rightarrow> (log_msg (BothFailed e2) w, Inl e2)
      | Inr df \<Rightarrow>
          (case funcion_transformacion df of
             Inl e2 \<Rightarrow> (log_msg (BothFailed e2) w, Inl e2)
           | Inr df_transformado \<Rightarrow>
               (case cargar_en_mongodb ops w (to_records df_transformado) cn 1000 of
                  (w1, Inl e2) \<Rightarrow> (log_msg (BothFailed e2) w1, Inl e2)
                | (w1, Inr ok) \<Rightarrow> (log_msg FallbackDone w1, Inr True))))"

text \<open>
  \<open>procesar_archivo_csv\<close>: \<open>except Exception as e\<close> of line 286 catches whatever left the
  first \<open>try\<close> block, logs it, and runs the whole-file path.
\<close>

definition procesar_archivo_csv ::
  "('db, 'doc) store_ops \<Rightarrow> (dataframe \<Rightarrow> exn + dataframe) \<Rightarrow> (dataframe \<Rightarrow> 'doc list) \<Rightarrow>
   string \<Rightarrow> csv_file \<Rightarrow> 'db world \<Rightarrow> 'db world \<times> (exn + bool)"
where
  "procesar_archivo_csv ops funcion_transformacion to_records collection_name f w =
     (case chunked_path ops funcion_transformacion to_records collection_name f w of
        (w1, None) \<Rightarrow> (log_msg FileDone w1, Inr True)
      | (w1, Some e) \<Rightarrow>
          whole_file_path ops funcion_transformacion to_records collection_name f
            (log_msg FallbackAttempt (log_msg (ProcessError e) w1)))"

section \<open>Inputs used as concrete examples\<close>

text \<open>A heap that holds one dataframe, at address 0.\<close>

definition heap_of :: "dataframe \<Rightarrow> heap" where
  "heap_of df = \<lparr>objs = (\<lambda>a. if a = 0 then df else []), nxt = 1\<rparr>"

text \<open>A library in which no date can be parsed.\<close>

definition plain_lib :: pylib where
  "plain_lib = \<lparr>to_datetime = (\<lambda>c. None), str_value = (\<lambda>v. ''0'')\<rparr>"


text \<open>A playlist whose name is punctuation only, and one without a name.\<close>

definition bangs :: dataframe where
  "bangs = [\<lparr>cname = ''name'', dtype = Object, cells = [Str ''!!!'', NaN]\<rparr>]"

text \<open>Two playlists, the second without a description.\<close>

definition described :: dataframe where
  "described = [\<lparr>cname = ''name'', dtype = Object, cells = [Str ''Mix'', Str ''Chill'']\<rparr>,
            \<lparr>cname = ''description'', dtype = Object, cells = [Str ''a-b!'', NaN]\<rparr>]"


text \<open>Three tracks of popularity 0, 50 and 100.\<close>

definition popular :: dataframe where
  "popular = [\<lparr>cname = ''popularity'', dtype = Int64, cells = [Num 0, Num 50, Num 100]\<rparr>]"



text \<open>
  A file that every way of reading parses without an error, into one chunk when it is
  read in chunks.
\<close>

definition good_file :: "dataframe \<Rightarrow> csv_file" where
  "good_file df =
     \<lparr>sample = None, chunks = Inr [Inr df], chunks_old_api = Inr [Inr df], whole_file = Inr df\<rparr>"

section \<open>Properties of the loader\<close>

lemma slice_chunk:
  "slice (i * n) (min ((i + 1) * n) (length xs)) xs = take n (drop (i * n) xs)"
  by (cases "(i + 1) * n \<le> length xs") (simp_all add: slice_def min_def)

lemma concat_chunks: "concat (map (\<lambda>i. take n (drop (i * n) xs)) [0..<k]) = take (k * n) xs"
proof (induction k)
  case 0
  show ?case by simp
next
  case (Suc k)
  have "take (k * n) xs @ take n (drop (k * n) xs) = take (k * n + n) xs"
    by (simp add: take_add)
  with Suc show ?case by (simp add: add.commute)
qed

lemma concat_filter_nonempty: "concat (filter (\<lambda>b. b \<noteq> []) bs) = concat bs"
  by (induction bs) auto

lemma num_batches_cover:
  fixes m n :: nat
  shows "0 < n \<Longrightarrow> m \<le> ((m + n - 1) div n) * n"
proof -
  assume n: "0 < n"
  have "(m + n - 1) mod n < n" using n by simp
  moreover have "(m + n - 1) div n * n + (m + n - 1) mod n = m + n - 1"
    by simp
  ultimately show ?thesis using n by linarith
qed

lemma sub_batches_chunks:
  "sub_batches n xs =
     filter (\<lambda>b. b \<noteq> []) (map (\<lambda>i. take n (drop (i * n) xs)) [0..<(length xs + n - 1) div n])"
  unfolding sub_batches_def Let_def slice_chunk ..

lemma concat_sub_batches: "0 < n \<Longrightarrow> concat (sub_batches n xs) = xs"
  using num_batches_cover [of n "length xs"]
  by (simp add: sub_batches_chunks concat_filter_nonempty concat_chunks del: upt_Suc)

lemma sub_batches_sizes: "b \<in> set (sub_batches n xs) \<Longrightarrow> b \<noteq> [] \<and> length b \<le> n"
  by (auto simp: sub_batches_chunks simp del: upt_Suc)



lemma insert_loop_feed:
  "feed ops cn batches (db w) = (d, outs) \<Longrightarrow> \<forall>out \<in> set outs. \<not> is_raised out \<Longrightarrow>
   insert_loop ops cn batches w = (w\<lparr>db := d, logged := logged w @ warnings_of outs\<rparr>, None)"
proof (induction batches arbitrary: w d outs)
  case Nil
  then show ?case by simp
next
  case (Cons b bs)
  obtain d1 out where io: "insert_many ops (db w) cn b = (d1, out)" by (cases "insert_many ops (db w) cn b")
  obtain d2 outs' where fd: "feed ops cn bs d1 = (d2, outs')" by (cases "feed ops cn bs d1")
  from Cons.prems io fd have eq: "d = d2" "outs = out # outs'" by auto
  with Cons.prems have nr: "\<not> is_raised out" "\<forall>o' \<in> set outs'. \<not> is_raised o'" by auto
  show ?case
  proof (cases out)
    case Inserted
    have "insert_loop ops cn bs (w\<lparr>db := d1\<rparr>) = ((w\<lparr>db := d1\<rparr>)\<lparr>db := d2, logged := logged (w\<lparr>db := d1\<rparr>) @ warnings_of outs'\<rparr>, None)"
      using Cons.IH [of "w\<lparr>db := d1\<rparr>" d2 outs'] fd nr by simp
    with io Inserted eq show ?thesis by simp
  next
    case (BulkWriteError k errs)
    let ?w = "log_msg (WarnWriteErrors errs) (w\<lparr>db := d1\<rparr>)"
    have "insert_loop ops cn bs ?w = (?w\<lparr>db := d2, logged := logged ?w @ warnings_of outs'\<rparr>, None)"
      using Cons.IH [of ?w d2 outs'] fd nr by (simp add: log_msg_def)
    with io BulkWriteError eq show ?thesis by (simp add: log_msg_def)
  next
    case (Raised e)
    with nr show ?thesis by simp
  qed
qed

lemma feed_recording: "feed recording_ops cn batches d = (d @ batches, map (\<lambda>b. Inserted) batches)"
  by (induction batches arbitrary: d) (simp_all add: recording_ops_def)

lemma warnings_of_inserted: "warnings_of (map (\<lambda>b. Inserted) batches) = []"
  by (induction batches) simp_all

lemma create_indexes_recording: "create_indexes recording_ops cn specs d = (d, None)"
  by (induction specs arbitrary: d) (auto simp: recording_ops_def)

lemma cargar_recording:
  "0 < n \<Longrightarrow> db (fst (cargar_en_mongodb recording_ops \<lparr>db = [], logged = []\<rparr> records cn n)) = sub_batches n records"
  using insert_loop_feed [of recording_ops cn "sub_batches n records" "log_msg (LoadStart cn (length records)) \<lparr>db = [], logged = []\<rparr>" "sub_batches n records" "map (\<lambda>b. Inserted) (sub_batches n records)"]
  by (simp add: cargar_en_mongodb_def Let_def feed_recording log_msg_def create_indexes_recording)

section \<open>Claims about the loader\<close>



text \<open>
  Claim C7. For every list of records and every sub-batch size \<open>n > 0\<close>, the sub-batches
  the loader writes are consecutive, none is empty or longer than \<open>n\<close>, and their
  concatenation in the order of the writes is the list of records itself: every record is
  written once, in the original order. The last conjunct reads the order of the writes off
  a store that records every call of \<open>insert_many\<close>.
\<close>

theorem sub_batches_partition:
  assumes "0 < n"
  shows "concat (sub_batches n records) = records
       \<and> (\<forall>b \<in> set (sub_batches n records). b \<noteq> [] \<and> length b \<le> n)
       \<and> db (fst (cargar_en_mongodb recording_ops \<lparr>db = [], logged = []\<rparr> records cn n))
           = sub_batches n records"
  using assms concat_sub_batches [of n records] sub_batches_sizes [of _ n records]
    cargar_recording [of n records cn]
  by blast

theorem sub_batches_partition_witness:
  "sub_batches 2 [1, 2, 3, 4, 5 :: nat] = [[1, 2], [3, 4], [5]]
   \<and> concat (sub_batches 2 [1, 2, 3, 4, 5 :: nat]) = [1, 2, 3, 4, 5]
   \<and> db (fst (cargar_en_mongodb recording_ops \<lparr>db = [], logged = []\<rparr> [1, 2, 3, 4, 5 :: nat] ''tracks'' 2))
       = [[1, 2], [3, 4], [5]]"
proof -
  have pos: "0 < (2::nat)" by simp
  have e: "sub_batches 2 [1, 2, 3, 4, 5 :: nat] = [[1, 2], [3, 4], [5]]"
    by (simp add: sub_batches_def slice_def Let_def upt_rec [of _ "numeral k" for k] upt_rec[of _ "Suc k" for k])
  show ?thesis using sub_batches_partition [OF pos, of "[1, 2, 3, 4, 5 :: nat]" "''tracks''"] e by simp
qed

subsection \<open>Duplicates\<close>


















subsection \<open>The playlist transform as a function of the input dataframe\<close>

lemma playlists_result:
  "limpiar_y_transformar_playlists L h a = (h', out) \<Longrightarrow>
     out = nxt h
     \<and> objs h' out =
         map (clean_text L) (map (convert_date L)
           (fillna_column ''name'' ''Unknown Playlist'' (drop_duplicates (objs h a))))
     \<and> (\<forall>b. b \<noteq> nxt h \<longrightarrow> objs h' b = objs h b)"
  by (auto simp: limpiar_y_transformar_playlists_def df_copy_def inplace_def Let_def)

lemma cname_fillna_text [simp]: "cname (fillna_text s c) = cname c"
  by (simp add: fillna_text_def)

lemma cname_convert_date [simp]: "cname (convert_date L c) = cname c"
  by (simp add: convert_date_def split: option.splits prod.splits)

lemma cname_clean_text [simp]: "cname (clean_text L c) = cname c"
  by (simp add: clean_text_def)

lemma no_null_fillna_text: "NaN \<notin> set (cells (fillna_text s c))"
  by (auto simp: fillna_text_def)

lemma name_is_no_date_column: "\<not> is_date_column ''name''"
  by (simp add: is_date_column_def py_lower_def lower_char_def)

lemma no_null_clean_text: "NaN \<notin> set (cells c) \<Longrightarrow> NaN \<notin> set (cells (clean_text L c))"
  by (auto simp: clean_text_def)

lemma name_column_before_clean:
  assumes "c \<in> set (map (convert_date L) (fillna_column ''name'' ''Unknown Playlist'' df))"
    and "cname c = ''name''"
  shows "NaN \<notin> set (cells c)"
proof -
  from assms(1) obtain c0 where c0: "c0 \<in> set df"
    and c: "c = convert_date L (if cname c0 = ''name'' then fillna_text ''Unknown Playlist'' c0 else c0)"
    by (auto simp: fillna_column_def)
  from c assms(2) have n0: "cname c0 = ''name''"
    by (simp split: if_splits)
  with c have "c = fillna_text ''Unknown Playlist'' c0"
    using name_is_no_date_column by (simp add: convert_date_def)
  then show ?thesis by (simp add: no_null_fillna_text)
qed

text \<open>
  Claim C6, amended. In the output of the playlist transform no value of the column \<open>name\<close>
  is missing. The claim as stated also excludes the empty string, which fails: the missing
  names are filled before the special characters are stripped, and a name made of
  punctuation only is stripped to the empty string, as the example after the theorem shows.
\<close>

theorem playlist_name_never_null:
  assumes "limpiar_y_transformar_playlists L h a = (h', out)"
    and "c \<in> set (objs h' out)"
    and "cname c = ''name''"
  shows "NaN \<notin> set (cells c)"
proof -
  let ?mid = "map (convert_date L) (fillna_column ''name'' ''Unknown Playlist'' (drop_duplicates (objs h a)))"
  have "objs h' out = map (clean_text L) ?mid"
    by (rule playlists_result [OF assms(1), THEN conjunct2, THEN conjunct1])
  with assms(2) have "c \<in> clean_text L ` set ?mid"
    by (simp only: set_map)
  then obtain c1 where c1: "c1 \<in> set ?mid" and c: "c = clean_text L c1"
    by blast
  from c assms(3) have "cname c1 = ''name''" by simp
  with c1 have "NaN \<notin> set (cells c1)" by (rule name_column_before_clean)
  with c show ?thesis by (simp add: no_null_clean_text)
qed

lemma playlists_on_bangs:
  "limpiar_y_transformar_playlists plain_lib (heap_of bangs) 0 = (h', out) \<Longrightarrow>
   objs h' out = [\<lparr>cname = ''name'', dtype = Object, cells = [Str '''', Str ''Unknown Playlist'']\<rparr>]"
proof -
  assume run: "limpiar_y_transformar_playlists plain_lib (heap_of bangs) 0 = (h', out)"
  have "map (clean_text plain_lib) (map (convert_date plain_lib)
           (fillna_column ''name'' ''Unknown Playlist'' (drop_duplicates (objs (heap_of bangs) 0))))
        = [\<lparr>cname = ''name'', dtype = Object, cells = [Str '''', Str ''Unknown Playlist'']\<rparr>]"
    by code_simp
  with playlists_result [OF run, THEN conjunct2, THEN conjunct1] show ?thesis by (simp only:)
qed

theorem playlist_name_never_null_witness:
  "(case limpiar_y_transformar_playlists plain_lib (heap_of bangs) 0 of (h', out) \<Rightarrow> objs h' out)
     = [\<lparr>cname = ''name'', dtype = Object, cells = [Str '''', Str ''Unknown Playlist'']\<rparr>]
   \<and> NaN \<notin> set [Str '''', Str ''Unknown Playlist'']"
proof -
  obtain h' out where run: "limpiar_y_transformar_playlists plain_lib (heap_of bangs) 0 = (h', out)"
    by (cases "limpiar_y_transformar_playlists plain_lib (heap_of bangs) 0")
  let ?c = "\<lparr>cname = ''name'', dtype = Object, cells = [Str '''', Str ''Unknown Playlist'']\<rparr>"
  have out: "objs h' out = [?c]" using run by (rule playlists_on_bangs)
  then have mem: "?c \<in> set (objs h' out)" by simp
  have nm: "cname ?c = ''name''" by simp
  from playlist_name_never_null [OF run mem nm] out run show ?thesis by simp
qed

text \<open>
  The counterexample to claim C6 as stated: the playlist named \<open>!!!\<close> leaves the transform
  with the empty string as its name.
\<close>

theorem playlist_name_can_be_empty:
  "cname ((case limpiar_y_transformar_playlists plain_lib (heap_of bangs) 0 of (h', out) \<Rightarrow> objs h' out) ! 0)
     = ''name''
   \<and> cells ((case limpiar_y_transformar_playlists plain_lib (heap_of bangs) 0 of (h', out) \<Rightarrow> objs h' out) ! 0) ! 0
     = Str ''''"
proof -
  obtain h' out where run: "limpiar_y_transformar_playlists plain_lib (heap_of bangs) 0 = (h', out)"
    by (cases "limpiar_y_transformar_playlists plain_lib (heap_of bangs) 0")
  from playlists_on_bangs [OF run] run show ?thesis by simp
qed

lemma playlists_frame:
  "limpiar_y_transformar_playlists L h a = (h', out) \<Longrightarrow>
   objs h' out = map (clean_text L) (before_clean_text L (objs h a))"
  unfolding before_clean_text_def
  by (rule playlists_result [THEN conjunct2, THEN conjunct1])

lemma length_before_clean_text: "length (before_clean_text L df) = length df"
  by (simp add: before_clean_text_def fillna_column_def drop_duplicates_def Let_def)

lemma strip_special_nan: "strip_special ''nan'' = ''nan''"
  by (simp add: strip_special_def is_word_char_def is_space_char_def)

text \<open>
  Claim C10. The text columns of line 142 are the columns of dtype \<open>object\<close> of the copy as
  lines 122 to 139 leave it. A missing value at row \<open>i\<close> of such a column is the string
  \<open>nan\<close> in the output, at the same row of the same column, which is still a text column.
  The column is never \<open>name\<close>, whose missing values line 131 has filled.
\<close>

theorem text_null_becomes_nan:
  assumes run: "limpiar_y_transformar_playlists L h a = (h', out)"
    and j: "j < length (objs h a)"
    and obj: "dtype (before_clean_text L (objs h a) ! j) = Object"
    and i: "i < length (cells (before_clean_text L (objs h a) ! j))"
    and null: "cells (before_clean_text L (objs h a) ! j) ! i = NaN"
  shows "cells (objs h' out ! j) ! i = Str ''nan''
       \<and> dtype (objs h' out ! j) = Object
       \<and> cname (objs h' out ! j) \<noteq> ''name''"
proof -
  let ?mid = "before_clean_text L (objs h a)"
  have j': "j < length ?mid" using j by (simp add: length_before_clean_text)
  have col: "objs h' out ! j = clean_text L (?mid ! j)"
    using playlists_frame [OF run] j' by simp
  have "cells (clean_text L (?mid ! j)) ! i = Str (strip_special (py_str L NaN))"
    using obj i null by (simp add: clean_text_def)
  then have c1: "cells (objs h' out ! j) ! i = Str ''nan''"
    by (simp add: col py_str_def strip_special_nan)
  have c2: "dtype (objs h' out ! j) = Object"
    using obj by (simp add: col clean_text_def)
  have "cname (?mid ! j) \<noteq> ''name''"
  proof
    assume nm: "cname (?mid ! j) = ''name''"
    have "?mid ! j \<in> set (map (convert_date L)
            (fillna_column ''name'' ''Unknown Playlist'' (drop_duplicates (objs h a))))"
      using j' by (simp only: before_clean_text_def [symmetric] nth_mem)
    from name_column_before_clean [OF this nm] have "NaN \<notin> set (cells (?mid ! j))" .
    moreover have "cells (?mid ! j) ! i \<in> set (cells (?mid ! j))" using i by (rule nth_mem)
    ultimately show False using null by simp
  qed
  then have c3: "cname (objs h' out ! j) \<noteq> ''name''" by (simp add: col)
  from c1 c2 c3 show ?thesis by simp
qed

lemma described_before_clean: "before_clean_text plain_lib (objs (heap_of described) 0) = described"
  by code_simp

theorem text_null_becomes_nan_witness:
  "cells ((case limpiar_y_transformar_playlists plain_lib (heap_of described) 0 of (h', out) \<Rightarrow> objs h' out) ! 1) ! 1
     = Str ''nan''
   \<and> cells (described ! 1) ! 1 = NaN \<and> dtype (described ! 1) = Object"
proof -
  obtain h' out where run: "limpiar_y_transformar_playlists plain_lib (heap_of described) 0 = (h', out)"
    by (cases "limpiar_y_transformar_playlists plain_lib (heap_of described) 0")
  have j: "1 < length (objs (heap_of described) 0)" by (simp add: heap_of_def described_def)
  have obj: "dtype (before_clean_text plain_lib (objs (heap_of described) 0) ! 1) = Object"
    by (simp add: described_before_clean) (simp add: described_def)
  have i: "1 < length (cells (before_clean_text plain_lib (objs (heap_of described) 0) ! 1))"
    by (simp add: described_before_clean) (simp add: described_def)
  have null: "cells (before_clean_text plain_lib (objs (heap_of described) 0) ! 1) ! 1 = NaN"
    by (simp add: described_before_clean) (simp add: described_def)
  from text_null_becomes_nan [OF run j obj i null] run show ?thesis
    by (simp add: described_def)
qed

lemma tracks_others:
  "limpiar_y_transformar_tracks h a = (h', r) \<Longrightarrow>
   (\<forall>b. b \<noteq> nxt h \<longrightarrow> objs h' b = objs h b) \<and> (r = Inr (nxt h) \<or> (\<exists>e. r = Inl e))"
  by (auto simp: limpiar_y_transformar_tracks_def df_copy_def inplace_def Let_def
           split: option.splits sum.splits)

text \<open>
  Claim C8. Both transforms work on a copy at a fresh address: every dataframe that
  existed when the transform was called, the argument among them, is afterwards what it
  was, and the result is not the caller's object.
\<close>

theorem transforms_leave_objects_unchanged:
  assumes "b < nxt h"
  shows "objs (fst (limpiar_y_transformar_playlists L h a)) b = objs h b
       \<and> snd (limpiar_y_transformar_playlists L h a) = nxt h
       \<and> objs (fst (limpiar_y_transformar_tracks h a)) b = objs h b
       \<and> snd (limpiar_y_transformar_tracks h a) \<noteq> Inr b"
proof -
  obtain h1 o1 where p: "limpiar_y_transformar_playlists L h a = (h1, o1)"
    by (cases "limpiar_y_transformar_playlists L h a")
  obtain h2 r2 where t: "limpiar_y_transformar_tracks h a = (h2, r2)"
    by (cases "limpiar_y_transformar_tracks h a")
  from assms have ne: "b \<noteq> nxt h" by simp
  from playlists_result [OF p] ne have "objs h1 b = objs h b" "o1 = nxt h" by simp_all
  moreover from tracks_others [OF t] ne assms have "objs h2 b = objs h b" "r2 \<noteq> Inr b" by auto
  ultimately show ?thesis by (simp add: p t)
qed

theorem transforms_leave_objects_unchanged_witness:
  "objs (fst (limpiar_y_transformar_playlists plain_lib (heap_of bangs) 0)) 0 = bangs
   \<and> snd (limpiar_y_transformar_playlists plain_lib (heap_of bangs) 0) = 1
   \<and> objs (fst (limpiar_y_transformar_tracks (heap_of bangs) 0)) 0 = bangs
   \<and> snd (limpiar_y_transformar_tracks (heap_of bangs) 0) \<noteq> Inr 0"
proof -
  have lt: "0 < nxt (heap_of bangs)" by (simp add: heap_of_def)
  from transforms_leave_objects_unchanged [OF lt, of plain_lib 0] show ?thesis
    by (simp add: heap_of_def)
qed

subsection \<open>The track transform as a function of the input dataframe\<close>


subsection \<open>Quantiles and the values that survive the outlier step\<close>














lemma cname_normalize_column [simp]: "cname (normalize_column c) = cname c"
  by (simp add: normalize_column_def fillna_median_def mark_outliers_def Let_def
           split: option.splits)


lemma length_drop_duplicates [simp]: "length (drop_duplicates df) = length df"
  by (simp add: drop_duplicates_def Let_def)








lemma length_fillna_column [simp]: "length (fillna_column col s df) = length df"
  by (simp add: fillna_column_def)



subsection \<open>The track transform on the example batches\<close>




lemma tracks_on_popular:
  "snd (limpiar_y_transformar_tracks (heap_of popular) 0) = Inr 1
   \<and> objs (fst (limpiar_y_transformar_tracks (heap_of popular) 0)) 1
       = popular @ [\<lparr>cname = ''popularity_category'', dtype = Category,
                      cells = [NaN, Str ''Medium'', Str ''Very High'']\<rparr>]"
  by code_simp







lemma cut_popularity:
  "cut_bins [0, 20, 40, 60, 80, 100] [''Very Low'', ''Low'', ''Medium'', ''High'', ''Very High''] x
     = (if 0 < x \<and> x \<le> 20 then Str ''Very Low''
        else if 20 < x \<and> x \<le> 40 then Str ''Low''
        else if 40 < x \<and> x \<le> 60 then Str ''Medium''
        else if 60 < x \<and> x \<le> 80 then Str ''High''
        else if 80 < x \<and> x \<le> 100 then Str ''Very High''
        else NaN)"
  by simp

text \<open>
  Claim C2, at the input where the code departs from it. \<open>pd.cut\<close> is called without
  \<open>include_lowest=True\<close>, so the first interval is open at 0: a popularity of exactly 0
  has the missing category and not \<open>Very Low\<close>. The rest of the claim holds, as
  \<open>cut_popularity\<close> above shows: a value in (0, 100] has the label of its interval and a
  value below 0 or above 100 has none.
\<close>

theorem popularity_zero_has_no_category:
  "cut_value [0, 20, 40, 60, 80, 100] [''Very Low'', ''Low'', ''Medium'', ''High'', ''Very High''] (Num 0)
     = Inr NaN
   \<and> snd (limpiar_y_transformar_tracks (heap_of popular) 0) = Inr 1
   \<and> objs (fst (limpiar_y_transformar_tracks (heap_of popular) 0)) 1
       = [\<lparr>cname = ''popularity'', dtype = Int64, cells = [Num 0, Num 50, Num 100]\<rparr>,
          \<lparr>cname = ''popularity_category'', dtype = Category,
            cells = [NaN, Str ''Medium'', Str ''Very High'']\<rparr>]"
  using tracks_on_popular by (simp add: cut_value_def popular_def)

subsection \<open>The orchestrator\<close>

lemma any_exception_starts_whole_file_path:
  "chunked_path ops tr to_records cn f w = (w1, Some e) \<Longrightarrow>
   procesar_archivo_csv ops tr to_records cn f w
     = whole_file_path ops tr to_records cn f (log_msg FallbackAttempt (log_msg (ProcessError e) w1))"
  by (simp add: procesar_archivo_csv_def)

text \<open>
  Claim C4, at the input where the code departs from it. The file parses without any
  error, and the store is unreachable when the first sub-batch of the first chunk is
  written. The loader raises the connection error, as the claim says; but the handler of
  line 286 catches every exception of the first \<open>try\<close> block, not only those of the
  parser. So the whole-file path runs although the chunked parse raised nothing, the load
  is attempted again, and, the store being back, the caller gets \<open>True\<close> and never sees
  the error.
\<close>

theorem load_error_takes_fallback:
  "procesar_archivo_csv flaky_ops Inr rows_of ''tracks'' (good_file popular) \<lparr>db = (0, []), logged = []\<rparr>
     = (\<lparr>db = (2, [[Num 0], [Num 50], [Num 100]]),
         logged = [ChunkStart 1, LoadStart ''tracks'' 3, LoadError ConnectionFailure,
                   ProcessError ConnectionFailure, FallbackAttempt,
                   LoadStart ''tracks'' 3, LoadOk ''tracks'', FallbackDone]\<rparr>,
        Inr True)"
  by code_simp

end
